theory Spec2Isabelle
  imports Main
begin

section \<open>The hotkey-driven recording controller of src/main.ts\<close>

text \<open>
  The module-level variables of \<^verbatim>\<open>src/main.ts\<close> that the hotkey handlers read and write
  are the fields of one state record. The handlers are \<^verbatim>\<open>async\<close> functions: each runs
  synchronously up to its first \<^verbatim>\<open>await\<close>, and the rest of its body is resumed later by
  the event loop, after other key events may have been handled. The model therefore splits
  every handler at its \<^verbatim>\<open>await\<close>s, keeps the suspended rests and the callbacks given to
  \<^verbatim>\<open>setImmediate\<close> and \<^verbatim>\<open>setTimeout\<close> as a list of pending jobs, and lets an
  event either deliver a key signal or run one pending job.
\<close>

subsection \<open>The push-to-talk service as seen from main.ts\<close>

text \<open>
  The class \<^verbatim>\<open>PushToTalkService\<close> (\<^verbatim>\<open>./input/push-to-talk-refactored\<close>) is not part
  of the sources at hand. \<^verbatim>\<open>main.ts\<close> reads its properties \<^verbatim>\<open>active\<close>,
  \<^verbatim>\<open>transcribing\<close> and \<^verbatim>\<open>recordingStartTime\<close>, writes \<^verbatim>\<open>active\<close>, and stashes two
  flags of its own on the object through \<^verbatim>\<open>as any\<close> casts (\<^verbatim>\<open>startedFromSingleTap\<close>,
  \<^verbatim>\<open>isHandsFreeMode\<close>). What the methods \<^verbatim>\<open>start\<close>, \<^verbatim>\<open>stop\<close> and \<^verbatim>\<open>hardStop\<close> do
  to the three properties is a parameter of the model.
\<close>

record pts_flags =
  active :: bool
  transcribing :: bool
  recordingStartTime :: "int option"

record pts =
  flags :: pts_flags
  startedFromSingleTap :: bool
  isHandsFreeMode :: bool

record backend =
  be_start :: "pts_flags \<Rightarrow> pts_flags"
  be_stop :: "pts_flags \<Rightarrow> pts_flags"
  be_hardStop :: "pts_flags \<Rightarrow> pts_flags"
  be_new :: "bool \<Rightarrow> bool \<Rightarrow> pts_flags"

definition call :: "(pts_flags \<Rightarrow> pts_flags) \<Rightarrow> pts \<Rightarrow> pts" where
  "call m s = s\<lparr>flags := m (flags s)\<rparr>"

definition set_active :: "bool \<Rightarrow> pts \<Rightarrow> pts" where
  "set_active b s = s\<lparr>flags := (flags s)\<lparr>active := b\<rparr>\<rparr>"

text \<open>JavaScript truthiness of \<^verbatim>\<open>recordingStartTime\<close>: neither null nor 0.\<close>

definition truthy :: "int option \<Rightarrow> bool" where
  "truthy t = (case t of None \<Rightarrow> False | Some n \<Rightarrow> n \<noteq> 0)"

text \<open>The properties of a service with nothing in progress.\<close>

definition idle_flags :: pts_flags where
  "idle_flags = \<lparr>active = False, transcribing = False, recordingStartTime = None\<rparr>"

text \<open>
  Modelled from the spec: the methods of the absent class \<^verbatim>\<open>PushToTalkService\<close>, used
  only to run the model on concrete inputs. The spec gives the backend \<^verbatim>\<open>start()\<close>,
  \<^verbatim>\<open>stop()\<close> (graceful: capture ends, transcription of the captured audio proceeds) and
  \<^verbatim>\<open>hardStop()\<close> (immediate abort, back to idle with no transcription), and the status
  properties \<^verbatim>\<open>active\<close> and \<^verbatim>\<open>transcribing\<close>. A new service has nothing in progress.
\<close>

definition spec_backend :: backend where
  "spec_backend =
     \<lparr>be_start = (\<lambda>f. f\<lparr>active := True\<rparr>),
      be_stop = (\<lambda>f. f\<lparr>active := False, transcribing := True\<rparr>),
      be_hardStop = (\<lambda>f. idle_flags),
      be_new = (\<lambda>audioFeedback streaming. idle_flags)\<rparr>"

subsection \<open>Notifications, backend calls and pending jobs\<close>

datatype channel =
    PushToTalkStart
  | PushToTalkStop
  | PushToTalkCancel
  | DictationStart
  | DictationStop
  | TranscriptionComplete
  | RecordingStatus bool bool
  | FnKeyStateChange bool

datatype target = Waveform | Dashboard | Window nat

datatype action =
    Send target channel
  | ShowWaveform
  | CallStart
  | CallStop
  | CallHardStop
  | SetDictationMode bool
  | RecordJarvisUsage
  | NewPushToTalkService bool bool
  | NewUniversalKeyService string
  | KeyServiceStop
  | UnregisterAllShortcuts
  | UpdateHotkeySetting string
  | ScheduleRestart

text \<open>
  A job is a piece of code the event loop will run later: a callback of
  \<^verbatim>\<open>setImmediate\<close> or \<^verbatim>\<open>setTimeout\<close>, or the rest of a handler behind an \<^verbatim>\<open>await\<close>.
\<close>

datatype job =
    HardStopTask
  | AuthCheckTask
  | SingleTapTimer nat
  | PendingStopReset
  | AfterHFStop
  | AfterCancelDelay
  | AfterHFStart
  | AfterPTTStart
  | AfterStopPushToTalk

datatype event =
    KeyDown int
  | KeyUp
  | Run job
  | Reject job
  | BackendReport bool bool "int option"

subsection \<open>The state\<close>

text \<open>
  A window variable is \<open>None\<close> when it is null and \<open>Some d\<close> otherwise, \<open>d\<close> being what
  \<^verbatim>\<open>isDestroyed()\<close> answers. \<open>allWindows\<close> is \<^verbatim>\<open>BrowserWindow.getAllWindows()\<close>. The
  trace records every send and every backend call the code issues, in order; \<open>unhandled\<close>
  counts the errors that leave a handler uncaught.
\<close>

record ctl =
  lastFnKeyTime :: int
  fnKeyPressed :: bool
  pendingSingleTapTimeout :: "nat option"
  isHandsFreeModeActive :: bool
  pendingHandsFreeStop :: bool
  pushToTalkService :: "pts option"
  universalKeyService :: "string option"
  isHotkeyMonitoringActive :: bool
  lastActiveHotkey :: "string option"
  hotkey :: string
  showWaveform :: bool
  useDeepgramStreaming :: bool
  useLocalWhisper :: bool
  audioFeedback :: bool
  waveformWindow :: "bool option"
  dashboardWindow :: "bool option"
  allWindows :: "(nat \<times> bool) list"
  userNudgeService :: bool
  isVoiceTutorialMode :: bool
  onboardingComplete :: bool
  jobs :: "job list"
  nextTimer :: nat
  trace :: "action list"
  unhandled :: nat

definition emit :: "action list \<Rightarrow> ctl \<Rightarrow> ctl" where
  "emit as c = c\<lparr>trace := trace c @ as\<rparr>"

definition enqueue :: "job \<Rightarrow> ctl \<Rightarrow> ctl" where
  "enqueue j c = c\<lparr>jobs := jobs c @ [j]\<rparr>"

text \<open>\<^verbatim>\<open>w && !w.isDestroyed()\<close>\<close>

definition live :: "bool option \<Rightarrow> bool" where
  "live w = (w = Some False)"

text \<open>
  \<^verbatim>\<open>w?.webContents.send(ch)\<close>: issued whenever the variable is not null. The helpers
  below give the actions a statement issues as a list, which \<open>emit\<close> appends to the trace.
\<close>

definition send_to :: "target \<Rightarrow> bool option \<Rightarrow> channel \<Rightarrow> action list" where
  "send_to t w ch = (if w \<noteq> None then [Send t ch] else [])"

definition send_wf :: "channel \<Rightarrow> ctl \<Rightarrow> ctl" where
  "send_wf ch c = emit (send_to Waveform (waveformWindow c) ch) c"

definition send_dash :: "channel \<Rightarrow> ctl \<Rightarrow> ctl" where
  "send_dash ch c = emit (send_to Dashboard (dashboardWindow c) ch) c"

text \<open>The \<^verbatim>\<open>forEach\<close> over all windows, skipping the destroyed ones.\<close>

definition to_windows :: "channel list \<Rightarrow> (nat \<times> bool) list \<Rightarrow> action list" where
  "to_windows chs ws =
     concat (map (\<lambda>(w, destroyed). if destroyed then [] else map (Send (Window w)) chs) ws)"

definition broadcast :: "channel list \<Rightarrow> ctl \<Rightarrow> ctl" where
  "broadcast chs c = emit (to_windows chs (allWindows c)) c"

text \<open>\<^verbatim>\<open>if (settings.showWaveform !== false && w && !w.isDestroyed()) w.show()\<close>\<close>

definition show_if :: "bool \<Rightarrow> bool option \<Rightarrow> action list" where
  "show_if sw w = (if sw \<and> live w then [ShowWaveform] else [])"

definition show_wf :: "ctl \<Rightarrow> ctl" where
  "show_wf c = emit (show_if (showWaveform c) (waveformWindow c)) c"

text \<open>\<^verbatim>\<open>if (userNudgeService) userNudgeService.recordJarvisUsage()\<close>\<close>

definition usage_if :: "bool \<Rightarrow> action list" where
  "usage_if n = (if n then [RecordJarvisUsage] else [])"

definition record_usage :: "ctl \<Rightarrow> ctl" where
  "record_usage c = emit (usage_if (userNudgeService c)) c"

definition map_service :: "(pts \<Rightarrow> pts) \<Rightarrow> ctl \<Rightarrow> ctl" where
  "map_service f c = c\<lparr>pushToTalkService := map_option f (pushToTalkService c)\<rparr>"

text \<open>\<^verbatim>\<open>pushToTalkService?.active || pushToTalkService?.transcribing\<close>\<close>

definition busy :: "ctl \<Rightarrow> bool" where
  "busy c = (case pushToTalkService c of None \<Rightarrow> False
             | Some s \<Rightarrow> active (flags s) \<or> transcribing (flags s))"

subsection \<open>handleHotkeyDown\<close>

text \<open>
  The immediate feedback sent at the top of the handler (lines 903 to 924): the waveform
  window is shown if the setting allows it, and the start and recording-status
  notifications go to the waveform window and, if it is there, to the dashboard.
\<close>

definition feedback_down :: "bool \<Rightarrow> bool option \<Rightarrow> bool option \<Rightarrow> action list" where
  "feedback_down sw wv dash =
     (if live wv then
        (if sw then [ShowWaveform] else [])
        @ [Send Waveform PushToTalkStart, Send Waveform (RecordingStatus True True)]
        @ (if live dash
           then [Send Dashboard (FnKeyStateChange True),
                 Send Dashboard (RecordingStatus True True)]
           else [])
      else [])"

definition ui_feedback_down :: "ctl \<Rightarrow> ctl" where
  "ui_feedback_down c =
     emit (feedback_down (showWaveform c) (waveformWindow c) (dashboardWindow c)) c"

text \<open>
  Leaving hands-free mode (lines 930 to 971). With a recording or transcription in
  progress the handler awaits \<^verbatim>\<open>stop()\<close>: the model issues the call and suspends the
  rest as the job \<open>AfterHFStop\<close>. The rest assigns to \<^verbatim>\<open>pushToTalkService\<close> without a
  null check, which throws if the service has gone meanwhile. The second test of
  \<^verbatim>\<open>pendingHandsFreeStop\<close> at line 931 never succeeds: nothing is awaited between the
  test at line 886 and this one.
\<close>

definition hf_exit_tail :: "ctl \<Rightarrow> ctl" where
  "hf_exit_tail c =
     (let c1 = send_wf DictationStop c;
          c2 = emit [SetDictationMode False] c1;
          c3 = record_usage c2
      in c3\<lparr>lastFnKeyTime := 0, pendingHandsFreeStop := False\<rparr>)"

definition hf_exit_resume :: "ctl \<Rightarrow> ctl" where
  "hf_exit_resume c =
     (case pushToTalkService c of
        None \<Rightarrow> c\<lparr>unhandled := unhandled c + 1\<rparr>
      | Some s \<Rightarrow> hf_exit_tail (map_service (\<lambda>s. s\<lparr>isHandsFreeMode := False\<rparr>) c))"

definition hf_exit :: "backend \<Rightarrow> ctl \<Rightarrow> ctl" where
  "hf_exit be c =
     (let c1 = c\<lparr>pendingHandsFreeStop := True, isHandsFreeModeActive := False\<rparr>
      in if pushToTalkService c1 \<noteq> None \<and> busy c1
         then enqueue AfterHFStop (emit [CallStop] (map_service (call (be_stop be)) c1))
         else hf_exit_tail (map_service (\<lambda>s. s\<lparr>isHandsFreeMode := False\<rparr>) c1))"

text \<open>\<^verbatim>\<open>clearTimeout(pendingSingleTapTimeout)\<close> (lines 974 to 978).\<close>

definition clear_single_tap_timeout :: "ctl \<Rightarrow> ctl" where
  "clear_single_tap_timeout c =
     (case pendingSingleTapTimeout c of
        None \<Rightarrow> c
      | Some h \<Rightarrow> c\<lparr>jobs := remove1 (SingleTapTimer h) (jobs c),
                    pendingSingleTapTimeout := None\<rparr>)"

text \<open>
  The double-tap branch (lines 984 to 1056). \<open>double_tap_enter\<close> is the part from line 1012
  on, which runs at once when nothing has to be cancelled and behind the 10 ms timer
  (job \<open>AfterCancelDelay\<close>) otherwise. It ends at \<^verbatim>\<open>await pushToTalkService.start()\<close>; the
  rest of the handler is the job \<open>AfterHFStart\<close>, run when the promise resolves and
  rejected when \<^verbatim>\<open>start()\<close> fails. A synchronous throw of \<^verbatim>\<open>start()\<close> is caught by the
  same \<^verbatim>\<open>catch\<close> block as a rejection.
\<close>

definition double_tap_tail :: "ctl \<Rightarrow> ctl" where
  "double_tap_tail c = emit [SetDictationMode True] c"

definition hf_start_failed :: "ctl \<Rightarrow> ctl" where
  "hf_start_failed c =
     (let c1 = c\<lparr>isHandsFreeModeActive := False\<rparr>;
          c2 = map_service (\<lambda>s. s\<lparr>isHandsFreeMode := False\<rparr>) c1
      in double_tap_tail (send_wf DictationStop c2))"

definition double_tap_enter :: "backend \<Rightarrow> ctl \<Rightarrow> ctl" where
  "double_tap_enter be c =
     (let c1 = record_usage c;
          c2 = c1\<lparr>isHandsFreeModeActive := True\<rparr>;
          c3 = map_service (\<lambda>s. s\<lparr>isHandsFreeMode := True\<rparr>) c2;
          c4 = send_wf DictationStart (show_wf c3);
          c5 = c4\<lparr>lastFnKeyTime := 0\<rparr>
      in if pushToTalkService c5 \<noteq> None
         then enqueue AfterHFStart (emit [CallStart] (map_service (call (be_start be)) c5))
         else double_tap_tail c5)"

definition cancel_needed :: "ctl \<Rightarrow> bool" where
  "cancel_needed c =
     (case pushToTalkService c of None \<Rightarrow> False
      | Some s \<Rightarrow> active (flags s) \<or> transcribing (flags s) \<or> startedFromSingleTap s)"

definition double_tap :: "backend \<Rightarrow> ctl \<Rightarrow> ctl" where
  "double_tap be c =
     (if cancel_needed c
      then let c1 = enqueue HardStopTask c;
               c2 = send_wf TranscriptionComplete (send_wf PushToTalkCancel c1)
           in enqueue AfterCancelDelay c2
      else double_tap_enter be c)"

text \<open>The callback given to \<^verbatim>\<open>setImmediate\<close> at line 996.\<close>

definition hard_stop_task :: "backend \<Rightarrow> ctl \<Rightarrow> ctl" where
  "hard_stop_task be c =
     (case pushToTalkService c of
        None \<Rightarrow> c
      | Some s \<Rightarrow>
          emit [CallHardStop]
            (map_service (\<lambda>s. (set_active False (call (be_hardStop be) s))
                                 \<lparr>startedFromSingleTap := False\<rparr>) c))"

text \<open>
  The single-press branch (lines 1058 to 1173). The promise of \<^verbatim>\<open>start()\<close> is not
  awaited: its \<^verbatim>\<open>then\<close>/\<^verbatim>\<open>catch\<close> callbacks are the job \<open>AfterPTTStart\<close>.
\<close>

definition single_tap :: "backend \<Rightarrow> int \<Rightarrow> ctl \<Rightarrow> ctl" where
  "single_tap be now c =
     (let c1 = c\<lparr>lastFnKeyTime := now, fnKeyPressed := True\<rparr>;
          c2 = broadcast [FnKeyStateChange True] (send_dash (FnKeyStateChange True) c1);
          c3 = enqueue AuthCheckTask c2;
          c4 = (if \<not> busy c3 then
                  let d1 = send_wf PushToTalkStart (show_wf c3)
                  in if pushToTalkService d1 \<noteq> None
                     then enqueue AfterPTTStart (emit [CallStart]
                            (map_service (\<lambda>s. call (be_start be) (s\<lparr>startedFromSingleTap := True\<rparr>)) d1))
                     else d1
                else
                  let d1 = emit [CallHardStop]
                             (map_service (\<lambda>s. set_active False (call (be_hardStop be) s)) c3)
                  in send_wf TranscriptionComplete (send_wf PushToTalkCancel d1))
      in enqueue (SingleTapTimer (nextTimer c4))
           (c4\<lparr>pendingSingleTapTimeout := Some (nextTimer c4), nextTimer := nextTimer c4 + 1\<rparr>))"

definition handleHotkeyDown :: "backend \<Rightarrow> int \<Rightarrow> ctl \<Rightarrow> ctl" where
  "handleHotkeyDown be currentTime c =
     (let timeSinceLastPress = currentTime - lastFnKeyTime c
      in if pendingHandsFreeStop c then c
         else let c1 = ui_feedback_down c
              in if isHandsFreeModeActive c1 then hf_exit be c1
                 else let c2 = clear_single_tap_timeout c1
                      in if lastFnKeyTime c2 > 0 \<and> timeSinceLastPress < 600 \<and> timeSinceLastPress > 20
                         then double_tap be c2
                         else single_tap be currentTime c2)"

text \<open>The deferred onboarding check of line 1075: visual feedback only during onboarding.\<close>

definition auth_check_task :: "ctl \<Rightarrow> ctl" where
  "auth_check_task c =
     (if isVoiceTutorialMode c then c
      else if \<not> onboardingComplete c then send_wf PushToTalkStart c
      else c)"

subsection \<open>handleHotkeyUp\<close>

text \<open>
  Lines 1175 to 1261. The deferred check of line 1197 only logs and is left out.
  \<^verbatim>\<open>stopPushToTalk\<close> (line 384) awaits \<^verbatim>\<open>stop()\<close> inside a \<^verbatim>\<open>try\<close> whose \<^verbatim>\<open>catch\<close> only
  logs: the job \<open>AfterStopPushToTalk\<close> does nothing, resolved or rejected.
\<close>

definition feedback_up :: "bool option \<Rightarrow> action list" where
  "feedback_up wv =
     (if live wv
      then [Send Waveform PushToTalkStop, Send Waveform (RecordingStatus False False)]
      else [])"

definition ui_feedback_up :: "ctl \<Rightarrow> ctl" where
  "ui_feedback_up c =
     (let c1 = emit (feedback_up (waveformWindow c)) c;
          c2 = send_dash (FnKeyStateChange False) c1
      in broadcast [FnKeyStateChange False, RecordingStatus False False] c2)"

definition stopPushToTalk :: "backend \<Rightarrow> ctl \<Rightarrow> ctl" where
  "stopPushToTalk be c =
     (if pushToTalkService c \<noteq> None
      then enqueue AfterStopPushToTalk (emit [CallStop] (map_service (call (be_stop be)) c))
      else c)"

definition release_ready :: "ctl \<Rightarrow> bool" where
  "release_ready c =
     (case pushToTalkService c of None \<Rightarrow> False
      | Some s \<Rightarrow> active (flags s) \<and> truthy (recordingStartTime (flags s)))"

definition handleHotkeyUp :: "backend \<Rightarrow> ctl \<Rightarrow> ctl" where
  "handleHotkeyUp be c =
     (let c1 = ui_feedback_up (c\<lparr>fnKeyPressed := False\<rparr>);
          c2 = map_service (\<lambda>s. s\<lparr>startedFromSingleTap := False\<rparr>) c1
      in if isHandsFreeModeActive c2 \<or> pendingHandsFreeStop c2
         then (if pendingHandsFreeStop c2 then enqueue PendingStopReset c2 else c2)
         else if release_ready c2
              then stopPushToTalk be (send_wf PushToTalkStop c2)
              else c2)"

subsection \<open>The event loop\<close>

definition run_job :: "backend \<Rightarrow> job \<Rightarrow> ctl \<Rightarrow> ctl" where
  "run_job be j c =
     (case j of
        HardStopTask \<Rightarrow> hard_stop_task be c
      | AuthCheckTask \<Rightarrow> auth_check_task c
      | SingleTapTimer h \<Rightarrow> c\<lparr>pendingSingleTapTimeout := None\<rparr>
      | PendingStopReset \<Rightarrow> c\<lparr>pendingHandsFreeStop := False\<rparr>
      | AfterHFStop \<Rightarrow> hf_exit_resume c
      | AfterCancelDelay \<Rightarrow> double_tap_enter be c
      | AfterHFStart \<Rightarrow> double_tap_tail c
      | AfterPTTStart \<Rightarrow> c
      | AfterStopPushToTalk \<Rightarrow> c)"

text \<open>
  What a rejected promise does to the rest of the handler awaiting it. Only the three
  awaited backend calls can reject; the rejection of \<^verbatim>\<open>stop()\<close> in the hands-free exit
  is not caught anywhere.
\<close>

definition reject_job :: "job \<Rightarrow> ctl \<Rightarrow> ctl" where
  "reject_job j c =
     (case j of
        AfterHFStop \<Rightarrow> c\<lparr>unhandled := unhandled c + 1\<rparr>
      | AfterHFStart \<Rightarrow> hf_start_failed c
      | AfterPTTStart \<Rightarrow> send_wf PushToTalkCancel c
      | _ \<Rightarrow> c)"

definition rejectable :: "job \<Rightarrow> bool" where
  "rejectable j = (j = AfterHFStop \<or> j = AfterHFStart \<or> j = AfterPTTStart \<or> j = AfterStopPushToTalk)"

definition step :: "backend \<Rightarrow> event \<Rightarrow> ctl \<Rightarrow> ctl" where
  "step be e c =
     (case e of
        KeyDown now \<Rightarrow> handleHotkeyDown be now c
      | KeyUp \<Rightarrow> handleHotkeyUp be c
      | Run j \<Rightarrow> (if j \<in> set (jobs c) then run_job be j (c\<lparr>jobs := remove1 j (jobs c)\<rparr>) else c)
      | Reject j \<Rightarrow> (if j \<in> set (jobs c) \<and> rejectable j
                     then reject_job j (c\<lparr>jobs := remove1 j (jobs c)\<rparr>) else c)
      | BackendReport a t r \<Rightarrow>
          map_service (\<lambda>s. s\<lparr>flags := \<lparr>active = a, transcribing = t, recordingStartTime = r\<rparr>\<rparr>) c)"

fun run :: "backend \<Rightarrow> event list \<Rightarrow> ctl \<Rightarrow> ctl" where
  "run be [] c = c"
| "run be (e # es) c = run be es (step be e c)"

text \<open>What a run has added to the trace.\<close>

definition since :: "ctl \<Rightarrow> ctl \<Rightarrow> action list" where
  "since c c' = drop (length (trace c)) (trace c')"

definition calls :: "action list \<Rightarrow> action list" where
  "calls as = filter (\<lambda>a. a = CallStart \<or> a = CallStop \<or> a = CallHardStop) as"

text \<open>
  The backend calls together with the three notifications that open, close and cancel a
  session on the waveform window.
\<close>

fun notable :: "action \<Rightarrow> bool" where
  "notable CallStart = True"
| "notable CallStop = True"
| "notable CallHardStop = True"
| "notable (Send Waveform DictationStart) = True"
| "notable (Send Waveform DictationStop) = True"
| "notable (Send Waveform PushToTalkCancel) = True"
| "notable _ = False"

definition marks :: "action list \<Rightarrow> action list" where
  "marks as = filter notable as"

subsection \<open>Starting and stopping the key monitor\<close>

text \<open>
  \<^verbatim>\<open>stopHotkeyMonitoring\<close> (lines 820 to 857) and \<^verbatim>\<open>startHotkeyMonitoring\<close> (lines 681 to
  818). Whether \<^verbatim>\<open>universalKeyService.start\<close> succeeds is an argument; a failed or throwing
  start leaves the variable null. The key service is represented by the key it monitors.
\<close>

definition stopHotkeyMonitoring :: "backend \<Rightarrow> ctl \<Rightarrow> ctl" where
  "stopHotkeyMonitoring be c =
     (let c1 = (if universalKeyService c \<noteq> None
                then (emit [KeyServiceStop] c)\<lparr>universalKeyService := None\<rparr> else c);
          c2 = emit [UnregisterAllShortcuts] c1;
          c3 = (case pushToTalkService c2 of
                  None \<Rightarrow> c2
                | Some s \<Rightarrow> if active (flags s)
                            then emit [CallStop] (map_service (call (be_stop be)) c2) else c2)
      in c3\<lparr>pushToTalkService := None\<rparr>)"

definition startHotkeyMonitoring :: "backend \<Rightarrow> bool \<Rightarrow> ctl \<Rightarrow> ctl" where
  "startHotkeyMonitoring be key_start_ok c =
     (let currentHotkey = hotkey c
      in if isHotkeyMonitoringActive c \<and> universalKeyService c \<noteq> None
            \<and> Some currentHotkey = lastActiveHotkey c
         then c
         else
           let c1 = (if isHotkeyMonitoringActive c then stopHotkeyMonitoring be c else c);
               shouldUseStreaming = (useDeepgramStreaming c1 \<and> \<not> useLocalWhisper c1);
               c2 = (emit [NewPushToTalkService (audioFeedback c1) shouldUseStreaming] c1)
                      \<lparr>pushToTalkService :=
                         Some \<lparr>flags = be_new be (audioFeedback c1) shouldUseStreaming,
                               startedFromSingleTap = False, isHandsFreeMode = False\<rparr>\<rparr>
           in if currentHotkey \<in> set [''fn'', ''option'', ''control'']
              then let c3 = emit [NewUniversalKeyService currentHotkey] c2
                   in if key_start_ok
                      then c3\<lparr>universalKeyService := Some currentHotkey,
                              isHotkeyMonitoringActive := True,
                              lastActiveHotkey := Some currentHotkey\<rparr>
                      else c3\<lparr>universalKeyService := None\<rparr>
              else (emit [UpdateHotkeySetting ''fn'', ScheduleRestart] c2)\<lparr>hotkey := ''fn''\<rparr>)"

text \<open>The state at program start (the initial values of the variables, lines 88 to 157).\<close>

definition init :: ctl where
  "init =
     \<lparr>lastFnKeyTime = 0, fnKeyPressed = False, pendingSingleTapTimeout = None,
      isHandsFreeModeActive = False, pendingHandsFreeStop = False,
      pushToTalkService = None, universalKeyService = None,
      isHotkeyMonitoringActive = False, lastActiveHotkey = None,
      hotkey = ''fn'', showWaveform = True, useDeepgramStreaming = False,
      useLocalWhisper = False, audioFeedback = True,
      waveformWindow = None, dashboardWindow = None, allWindows = [],
      userNudgeService = False, isVoiceTutorialMode = False, onboardingComplete = True,
      jobs = [], nextTimer = 0, trace = [], unhandled = 0\<rparr>"

text \<open>
  A running application: the waveform window created, monitoring started on the Fn key
  with the backend modelled from the spec.
\<close>

definition ready :: ctl where
  "ready = (startHotkeyMonitoring spec_backend True (init\<lparr>waveformWindow := Some False\<rparr>))\<lparr>trace := []\<rparr>"

subsection \<open>Abbreviations for the conditions of handleHotkeyDown\<close>



subsection \<open>Concrete states\<close>



text \<open>
  The states of a run on the backend modelled from the spec: after a first key press at
  time 1000; after a second press 300 ms later, once the queued hard stop and the 10 ms
  timer have run (the hands-free \<^verbatim>\<open>start()\<close> is awaited); after that \<^verbatim>\<open>start()\<close> has
  resolved; the same with the backend reporting that nothing is in progress; and, for
  the race, after a third press 5 ms after the second one, handled
  while the second handler still waits for its timer.
\<close>

definition pressed :: ctl where
  "pressed = step spec_backend (KeyDown 1000) ready"




definition raced :: ctl where
  "raced = run spec_backend [KeyDown 1300, Run HardStopTask, KeyDown 1305] pressed"

section \<open>Basic facts\<close>

lemmas aux_defs = emit_def enqueue_def send_wf_def send_dash_def broadcast_def show_wf_def
  record_usage_def map_service_def busy_def live_def call_def set_active_def

lemma calls_append [simp]: "calls (xs @ ys) = calls xs @ calls ys"
  by (simp add: calls_def)

lemma calls_simps [simp]:
  "calls [] = []"
  "calls (Send t ch # as) = calls as"
  "calls (ShowWaveform # as) = calls as"
  "calls (SetDictationMode b # as) = calls as"
  "calls (RecordJarvisUsage # as) = calls as"
  "calls (CallStart # as) = CallStart # calls as"
  "calls (CallStop # as) = CallStop # calls as"
  "calls (CallHardStop # as) = CallHardStop # calls as"
  by (simp_all add: calls_def)

lemma calls_to_windows [simp]: "calls (to_windows chs ws) = []"
  by (induction ws) (auto simp: calls_def to_windows_def)

lemma to_windows_no_call [simp]:
  "CallStop \<notin> set (to_windows chs ws)" "CallStart \<notin> set (to_windows chs ws)"
  "CallHardStop \<notin> set (to_windows chs ws)"
  by (auto simp: to_windows_def split: if_splits)


lemma marks_append [simp]: "marks (xs @ ys) = marks xs @ marks ys"
  by (simp add: marks_def)

lemma marks_Nil [simp]: "marks [] = []"
  by (simp add: marks_def)

lemma marks_Cons [simp]: "marks (a # as) = (if notable a then a # marks as else marks as)"
  by (simp add: marks_def)

lemma marks_to_windows [simp]: "marks (to_windows chs ws) = []"
  by (induction ws) (auto simp: marks_def to_windows_def)

lemma marks_feedback_down [simp]: "marks (feedback_down sw wv dw) = []"
  by (simp add: feedback_down_def)

lemma marks_feedback_up [simp]: "marks (feedback_up wv) = []"
  by (simp add: feedback_up_def)

lemma marks_show_if [simp]: "marks (show_if sw wv) = []"
  by (simp add: show_if_def)

lemma marks_usage_if [simp]: "marks (usage_if n) = []"
  by (simp add: usage_if_def)

lemma marks_send_to [simp]:
  "marks (send_to Waveform wv DictationStart) = send_to Waveform wv DictationStart"
  "marks (send_to Waveform wv DictationStop) = send_to Waveform wv DictationStop"
  "marks (send_to Waveform wv PushToTalkCancel) = send_to Waveform wv PushToTalkCancel"
  "marks (send_to Waveform wv PushToTalkStart) = []"
  "marks (send_to Waveform wv PushToTalkStop) = []"
  "marks (send_to Waveform wv TranscriptionComplete) = []"
  "marks (send_to Dashboard dw ch) = []"
  by (simp_all add: send_to_def)

lemma calls_parts [simp]:
  "calls (feedback_down sw wv dw) = []"
  "calls (feedback_up wv) = []"
  "calls (show_if sw wv) = []"
  "calls (usage_if n) = []"
  "calls (send_to t wv ch) = []"
  by (simp_all add: feedback_down_def feedback_up_def show_if_def usage_if_def send_to_def)

lemma since_upd [simp]:
  "since c (c\<lparr>trace := trace c @ as\<rparr>) = as"
  by (simp add: since_def)




lemma ready_eq:
  "ready =
     \<lparr>lastFnKeyTime = 0, fnKeyPressed = False, pendingSingleTapTimeout = None,
      isHandsFreeModeActive = False, pendingHandsFreeStop = False,
      pushToTalkService =
        Some \<lparr>flags = idle_flags, startedFromSingleTap = False, isHandsFreeMode = False\<rparr>,
      universalKeyService = Some ''fn'',
      isHotkeyMonitoringActive = True, lastActiveHotkey = Some ''fn'',
      hotkey = ''fn'', showWaveform = True, useDeepgramStreaming = False,
      useLocalWhisper = False, audioFeedback = True,
      waveformWindow = Some False, dashboardWindow = None, allWindows = [],
      userNudgeService = False, isVoiceTutorialMode = False, onboardingComplete = True,
      jobs = [], nextTimer = 0, trace = [], unhandled = 0\<rparr>"
  by (simp add: ready_def startHotkeyMonitoring_def init_def emit_def spec_backend_def Let_def)

section \<open>Facts about the concrete states\<close>








section \<open>Key release\<close>








section \<open>Key press: what each branch does to the state\<close>









section \<open>Runs through a double tap\<close>














section \<open>Leaving hands-free mode\<close>





section \<open>Key press: the claims about single branches\<close>










section \<open>Starting the monitor twice\<close>

text \<open>
  Claim C9. When monitoring is active, a key service exists and the configured hotkey is
  the one last activated, \<^verbatim>\<open>startHotkeyMonitoring\<close> returns at once: the whole state is
  unchanged, so neither service is stopped or created again and nothing is added to the
  trace.
\<close>

theorem startHotkeyMonitoring_same_key_noop:
  assumes "isHotkeyMonitoringActive c" and "universalKeyService c \<noteq> None"
    and "lastActiveHotkey c = Some (hotkey c)"
  shows "startHotkeyMonitoring be ok c = c"
  using assms by (simp add: startHotkeyMonitoring_def)

theorem startHotkeyMonitoring_same_key_noop_witness:
  "isHotkeyMonitoringActive ready \<and> universalKeyService ready \<noteq> None
   \<and> lastActiveHotkey ready = Some (hotkey ready)
   \<and> startHotkeyMonitoring spec_backend False ready = ready"
proof -
  have a: "isHotkeyMonitoringActive ready" "universalKeyService ready \<noteq> None"
    "lastActiveHotkey ready = Some (hotkey ready)"
    by (simp_all add: ready_eq)
  from startHotkeyMonitoring_same_key_noop [OF a] a show ?thesis by blast
qed

section \<open>A third press while a double tap waits for its timer\<close>

text \<open>
  Whatever the backend methods do to the flags of the service: when a third key press
  arrives 5 ms after a double tap, each of the two suspended handlers calls
  \<^verbatim>\<open>start()\<close> when its timer fires, and no stop lies between the two calls.
\<close>

lemma two_starts_in_a_row:
  assumes "\<not> pendingHandsFreeStop c" and "\<not> isHandsFreeModeActive c" and "lastFnKeyTime c = 0"
    and "pushToTalkService c = Some s" and "\<not> active (flags s)" and "\<not> transcribing (flags s)"
    and "jobs c = []" and "pendingSingleTapTimeout c = None"
  shows "calls (since c (run be [KeyDown 1000, KeyDown 1300, Run HardStopTask, KeyDown 1305,
                                Run HardStopTask, Run AfterCancelDelay, Run AfterCancelDelay] c))
    = [CallStart, CallHardStop]
      @ (if transcribing (be_hardStop be (be_start be (flags s))) then [CallHardStop] else [])
      @ [CallStart, CallStart]"
proof (cases "transcribing (be_hardStop be (be_start be (flags s)))")
  case True
  with assms show ?thesis
    by (simp add: step_def run_job_def handleHotkeyDown_def ui_feedback_down_def
          clear_single_tap_timeout_def double_tap_def double_tap_enter_def
          double_tap_tail_def cancel_needed_def hard_stop_task_def single_tap_def
          Let_def aux_defs since_def)
next
  case False
  with assms show ?thesis
    by (simp add: step_def run_job_def handleHotkeyDown_def ui_feedback_down_def
          clear_single_tap_timeout_def double_tap_def double_tap_enter_def
          double_tap_tail_def cancel_needed_def hard_stop_task_def single_tap_def
          Let_def aux_defs since_def)
qed

text \<open>
  Claim C1 asks that \<^verbatim>\<open>start()\<close> is only issued once the previous session is back to
  idle. The run below violates it. Key presses arrive at 1000, 1300 and 1305. The second
  one is a double tap: it queues the hard stop of the first session and waits 10 ms
  before it enters hands-free mode, without touching \<^verbatim>\<open>lastFnKeyTime\<close>. The queued hard
  stop runs. The third press, 305 ms after the recorded time, is therefore taken for a
  double tap as well, finds nothing to cancel and starts a hands-free session at once.
  When the timer of the second press fires, its handler calls \<^verbatim>\<open>start()\<close> again, on a
  service that is active: two \<^verbatim>\<open>start()\<close> calls with no stop between them. The same
  happens when every press is followed by its release and the first recording has a
  start time.
\<close>

theorem restart_without_stop:
  "calls (trace (run spec_backend
       [KeyDown 1000, KeyDown 1300, Run HardStopTask, KeyDown 1305, Run AfterCancelDelay] ready))
     = [CallStart, CallHardStop, CallStart, CallStart]
   \<and> raced = run spec_backend [KeyDown 1000, KeyDown 1300, Run HardStopTask, KeyDown 1305] ready
   \<and> pushToTalkService raced =
        Some \<lparr>flags = \<lparr>active = True, transcribing = False, recordingStartTime = None\<rparr>,
              startedFromSingleTap = False, isHandsFreeMode = True\<rparr>
   \<and> since raced (step spec_backend (Run AfterCancelDelay) raced)
        = [ShowWaveform, Send Waveform DictationStart, CallStart]
   \<and> calls (trace (run spec_backend
       [KeyDown 1000, BackendReport True False (Some 1000), KeyUp, KeyDown 1300, Run HardStopTask,
        KeyUp, KeyDown 1305, Run AfterCancelDelay] ready))
     = [CallStart, CallStop, CallHardStop, CallStart, CallStart]"
  by code_simp

end
